theory Spec2Isabelle
  imports Main
begin

section \<open>JavaScript values\<close>

text \<open>
  The feeds deliver JSON, and the handler reads it as dynamically typed JavaScript
  values. A value is one of the JSON shapes, or \<open>undefined\<close> (what reading an absent
  property gives). An object is the list of its own properties; the first binding of a
  key is the one that is read.

  A number is represented by its canonical rendering, the string that
  \<open>Number.prototype.toString\<close> gives for it: \<open>1\<close> is \<open>JNum ''1''\<close>, \<open>1.5\<close> is
  \<open>JNum ''1.5''\<close>, \<open>1e21\<close> is \<open>JNum ''1e+21''\<close>. The rendering determines the number,
  up to the sign of zero (\<open>0\<close> and \<open>-0\<close> both render as \<open>0\<close>), and nothing the handler does
  tells the two zeros apart: both are falsy, both print as \<open>0\<close>, and \<open>SameValueZero\<close>
  identifies them. A string that is not the rendering of a number stands for no value.
\<close>

datatype jsval =
    JUndefined
  | JNull
  | JBool bool
  | JNum string
  | JStr string
  | JArr "jsval list"
  | JObj "(string \<times> jsval) list"

text \<open>
  What the code can throw or reject with. \<open>HttpError n\<close> is
  \<^verbatim>\<open>new Error(`HTTP error! Status: ${response.status}`)\<close>, \<open>UnexpectedJsonStructure\<close> is
  \<^verbatim>\<open>new Error('Unexpected JSON structure: expected an array')\<close>; \<open>TypeError\<close> is raised
  by the runtime on a property read or a method call on \<open>undefined\<close> or \<open>null\<close>, and on a
  call of something that is not a function. The remaining three are rejections that come
  from outside: \<open>fetch\<close> itself, \<open>response.json()\<close>, and the persistence layer.
\<close>

datatype error =
    HttpError nat
  | UnexpectedJsonStructure
  | TypeError
  | FetchRejected
  | JsonSyntaxError
  | PersistenceError

text \<open>Sequencing of a computation that may throw.\<close>

definition bind_err :: "error + 'a \<Rightarrow> ('a \<Rightarrow> error + 'b) \<Rightarrow> error + 'b" where
  "bind_err m f = (case m of Inl e \<Rightarrow> Inl e | Inr x \<Rightarrow> f x)"

text \<open>
  \<open>ToBoolean\<close>: the falsy values are \<open>undefined\<close>, \<open>null\<close>, \<open>false\<close>, the numbers \<open>0\<close>,
  \<open>-0\<close> and \<open>NaN\<close>, and the empty string.
\<close>

fun truthy :: "jsval \<Rightarrow> bool" where
  "truthy JUndefined = False"
| "truthy JNull = False"
| "truthy (JBool b) = b"
| "truthy (JNum r) = (r \<noteq> ''0'' \<and> r \<noteq> ''NaN'')"
| "truthy (JStr s) = (s \<noteq> [])"
| "truthy (JArr xs) = True"
| "truthy (JObj kvs) = True"

text \<open>
  Reading a data property \<open>v.p\<close>. It throws on \<open>undefined\<close> and \<open>null\<close>; an object gives
  its own property or \<open>undefined\<close>; a boolean, number, string or array gives \<open>undefined\<close>.
  The last two cases hold for the property names the handler reads (\<open>bundle_id\<close>,
  \<open>publisher_id\<close>, \<open>name\<close>, \<open>os\<close>, \<open>app_id\<close>, \<open>version\<close>), none of which is defined on a
  built-in prototype.
\<close>

fun get_prop :: "jsval \<Rightarrow> string \<Rightarrow> error + jsval" where
  "get_prop JUndefined p = Inl TypeError"
| "get_prop JNull p = Inl TypeError"
| "get_prop (JObj kvs) p = Inr (case map_of kvs p of None \<Rightarrow> JUndefined | Some v \<Rightarrow> v)"
| "get_prop v p = Inr JUndefined"

text \<open>
  The decimal digits of an array length, as a template literal prints
  \<open>newGames.length\<close> (an integer below \<open>2^32\<close>).
\<close>

fun show_nat :: "nat \<Rightarrow> string" where
  "show_nat n =
     (if n < 10 then [''0123456789'' ! n]
      else show_nat (n div 10) @ [''0123456789'' ! (n mod 10)])"

declare show_nat.simps [simp del]

text \<open>
  The method call \<open>v.toString()\<close>. On \<open>undefined\<close> and \<open>null\<close> the property read throws.
  A string is returned as it is, a number gives its rendering, a boolean \<open>true\<close> or \<open>false\<close>.
  An array joins its elements with commas, \<open>undefined\<close> and \<open>null\<close> elements printing as
  the empty string. An object parsed from JSON prints as \<open>[object Object]\<close>, unless it has
  an own property \<open>toString\<close>, which JSON can only make a non-function: calling it throws.
\<close>

fun toString :: "jsval \<Rightarrow> error + string"
  and join :: "jsval list \<Rightarrow> error + string" where
  "toString JUndefined = Inl TypeError"
| "toString JNull = Inl TypeError"
| "toString (JBool b) = Inr (if b then ''true'' else ''false'')"
| "toString (JNum r) = Inr r"
| "toString (JStr s) = Inr s"
| "toString (JArr xs) = join xs"
| "toString (JObj kvs) =
     (if map_of kvs ''toString'' = None then Inr ''[object Object]'' else Inl TypeError)"
| "join [] = Inr []"
| "join (x # xs) =
     (case (if x = JUndefined \<or> x = JNull then Inr [] else toString x) of
        Inl e \<Rightarrow> Inl e
      | Inr s \<Rightarrow>
          (if xs = [] then Inr s
           else (case join xs of Inl e \<Rightarrow> Inl e | Inr t \<Rightarrow> Inr (s @ '','' @ t))))"

text \<open>
  \<open>SameValueZero\<close>, the equality of \<open>Set.prototype.has\<close>, between a value held by the
  set and a value read from a feed record: primitives are equal when they are the same
  value, and an array or object is equal only to itself, which a value parsed from a feed
  never is to one that came from the store.
\<close>

fun same_value_zero :: "jsval \<Rightarrow> jsval \<Rightarrow> bool" where
  "same_value_zero (JArr xs) v = False"
| "same_value_zero (JObj kvs) v = False"
| "same_value_zero u v = (u = v)"

definition set_has :: "jsval list \<Rightarrow> jsval \<Rightarrow> bool" where
  "set_has elems v = list_ex (\<lambda>u. same_value_zero u v) elems"

text \<open>\<open>Array.prototype.map\<close> and \<open>filter\<close> with a callback that may throw: the first throw ends the loop.\<close>

primrec map_err :: "('a \<Rightarrow> error + 'b) \<Rightarrow> 'a list \<Rightarrow> error + 'b list" where
  "map_err f [] = Inr []"
| "map_err f (x # xs) =
     (case f x of
        Inl e \<Rightarrow> Inl e
      | Inr y \<Rightarrow> (case map_err f xs of Inl e \<Rightarrow> Inl e | Inr ys \<Rightarrow> Inr (y # ys)))"

primrec filter_err :: "('a \<Rightarrow> error + bool) \<Rightarrow> 'a list \<Rightarrow> error + 'a list" where
  "filter_err p [] = Inr []"
| "filter_err p (x # xs) =
     (case p x of
        Inl e \<Rightarrow> Inl e
      | Inr b \<Rightarrow>
          (case filter_err p xs of
             Inl e \<Rightarrow> Inl e
           | Inr ys \<Rightarrow> Inr (if b then x # ys else ys)))"

section \<open>The feed fetcher\<close>

text \<open>
  What the network gives back for a URL: \<open>fetch\<close> rejects, or resolves to a response
  with a status code and a body; \<open>json_body\<close> is what \<open>response.json()\<close> settles to
  (a rejection when the body is not JSON). \<open>response.ok\<close> is, by the Fetch standard,
  true exactly for the statuses 200 to 299.
\<close>

record response =
  status :: nat
  json_body :: "error + jsval"

definition ok :: "response \<Rightarrow> bool" where
  "ok r = (200 \<le> status r \<and> status r \<le> 299)"

text \<open>The entity handed to \<open>bulkCreate\<close> (lines 129 to 137 of the handler).\<close>

record game_entity =
  publisherId :: jsval
  name :: jsval
  platform :: string
  storeId :: string
  bundleId :: jsval
  appVersion :: jsval
  isPublished :: bool

text \<open>
  The effects of a run, in the order the model performs them: a network request, a parse
  of a response body, the two persistence calls and the console lines. The two fetches of
  one run are dispatched together; the trace lists the events of the iOS fetch before
  those of the Android fetch.
\<close>

datatype event =
    NetFetch string
  | JsonParse string
  | ConsoleError error
  | ConsoleLog string
  | DbFindAll "jsval list"
  | DbBulkCreate "game_entity list"

fun isArray :: "jsval \<Rightarrow> bool" where
  "isArray (JArr xs) = True"
| "isArray v = False"

fun elements :: "jsval \<Rightarrow> jsval list" where
  "elements (JArr xs) = xs"
| "elements v = []"

text \<open>
  \<open>acc.concat(group)\<close>: an array argument is spread into the result, any other value is
  appended as one element.
\<close>

definition concat_js :: "jsval list \<Rightarrow> jsval \<Rightarrow> jsval list" where
  "concat_js acc grp = (if isArray grp then acc @ elements grp else acc @ [grp])"

text \<open>\<open>data.reduce((acc, group) => acc.concat(group), [])\<close>\<close>

definition flatten :: "jsval \<Rightarrow> jsval list" where
  "flatten data = foldl concat_js [] (elements data)"

text \<open>
  \<open>fetchAggregatedTopGames(url)\<close>: the result the promise settles to (\<open>Inl\<close> a rejection)
  and the events. The final \<open>catch\<close> logs the error and throws it again.
\<close>

definition fetchAggregatedTopGames ::
  "(string \<Rightarrow> error + response) \<Rightarrow> string \<Rightarrow> (error + jsval list) \<times> event list" where
  "fetchAggregatedTopGames net url =
     (case net url of
        Inl e \<Rightarrow> (Inl e, [NetFetch url, ConsoleError e])
      | Inr r \<Rightarrow>
          if \<not> ok r then
            (Inl (HttpError (status r)), [NetFetch url, ConsoleError (HttpError (status r))])
          else
            (case json_body r of
               Inl e \<Rightarrow> (Inl e, [NetFetch url, JsonParse url, ConsoleError e])
             | Inr data \<Rightarrow>
                 if \<not> isArray data then
                   (Inl UnexpectedJsonStructure,
                    [NetFetch url, JsonParse url, ConsoleError UnexpectedJsonStructure])
                 else (Inr (flatten data), [NetFetch url, JsonParse url])))"

section \<open>The populate handler\<close>

text \<open>\<open>process.env\<close>: a variable is a string or is not set.\<close>

record env =
  JSON_URL_IOS :: "string option"
  JSON_URL_ANDROID :: "string option"

text \<open>\<open>!url\<close>: true for a variable that is not set and for the empty string.\<close>

fun unset :: "string option \<Rightarrow> bool" where
  "unset None = True"
| "unset (Some u) = (u = [])"

text \<open>The URL string held by a variable that passed the check.\<close>

fun url_of :: "string option \<Rightarrow> string" where
  "url_of None = []"
| "url_of (Some u) = u"

text \<open>
  The persistence layer \<open>db.Game\<close> is a collaborator of the handler, taken as a
  parameter: over a store state \<open>'s\<close>, \<open>findAll\<close> answers the query for the rows whose
  \<open>bundleId\<close> is among the given values (only the attribute \<open>bundleId\<close> is read from a
  row), and \<open>bulkCreate\<close> inserts a batch. Either may reject; a rejected insert leaves
  the state as it was.
\<close>

record existing_game =
  row_bundleId :: jsval

record 's persistence =
  findAll :: "'s \<Rightarrow> jsval list \<Rightarrow> error + existing_game list"
  bulkCreate :: "'s \<Rightarrow> game_entity list \<Rightarrow> error + 's"

datatype payload = ErrorBody string | MessageBody string | AddedBody nat

record reply =
  http_status :: nat
  payload :: payload

record 's outcome =
  sent :: reply
  store :: 's
  events :: "event list"

text \<open>The filter callback of line 128: \<open>game.bundle_id && !existingBundleIds.has(game.bundle_id)\<close>.\<close>

definition keep_game :: "jsval list \<Rightarrow> jsval \<Rightarrow> error + bool" where
  "keep_game existingBundleIds game =
     bind_err (get_prop game ''bundle_id'')
       (\<lambda>bundle_id. Inr (truthy bundle_id \<and> \<not> set_has existingBundleIds bundle_id))"

text \<open>The map callback of lines 129 to 137.\<close>

definition to_entity :: "jsval \<Rightarrow> error + game_entity" where
  "to_entity game =
     bind_err (get_prop game ''publisher_id'') (\<lambda>publisher_id.
     bind_err (get_prop game ''name'') (\<lambda>game_name.
     bind_err (get_prop game ''os'') (\<lambda>os.
     bind_err (get_prop game ''app_id'') (\<lambda>app_id.
     bind_err (toString app_id) (\<lambda>store_id.
     bind_err (get_prop game ''bundle_id'') (\<lambda>bundle_id.
     bind_err (get_prop game ''version'') (\<lambda>version.
       Inr \<lparr> publisherId = publisher_id,
             name = game_name,
             platform = (if os = JStr ''ios'' then ''ios'' else ''android''),
             storeId = store_id,
             bundleId = bundle_id,
             appVersion = (if truthy version then version else JStr []),
             isPublished = True \<rparr>)))))))"

text \<open>The Dedup Filter, lines 127 to 137: \<open>topGames.filter(...).map(...)\<close>.\<close>

definition newGames :: "jsval list \<Rightarrow> jsval list \<Rightarrow> error + game_entity list" where
  "newGames existingBundleIds topGames =
     bind_err (filter_err (keep_game existingBundleIds) topGames) (map_err to_entity)"

text \<open>The \<open>catch\<close> of lines 150 to 153: whatever was thrown, one log line and one reply.\<close>

definition failed :: "'s \<Rightarrow> event list \<Rightarrow> 's outcome" where
  "failed s evs =
     \<lparr> sent = \<lparr> http_status = 500, payload = ErrorBody ''Failed to populate database'' \<rparr>,
       store = s,
       events = evs @ [ConsoleLog ''***There was an error populating games''] \<rparr>"

text \<open>The \<open>then\<close> callback of lines 106 to 149, run when both fetches resolved.\<close>

definition on_fetched ::
  "'s persistence \<Rightarrow> 's \<Rightarrow> event list \<Rightarrow> jsval list \<Rightarrow> jsval list \<Rightarrow> 's outcome" where
  "on_fetched db s evs iosGames androidGames =
     (let topGames = iosGames @ androidGames in
      if \<not> truthy (JArr topGames) then
        \<lparr> sent = \<lparr> http_status = 200,
                    payload = MessageBody ''No new games to add (no data available).'' \<rparr>,
          store = s, events = evs \<rparr>
      else
        (case map_err (\<lambda>game. get_prop game ''bundle_id'') topGames of
           Inl e \<Rightarrow> failed s evs
         | Inr bundle_ids \<Rightarrow>
             (case findAll db s bundle_ids of
                Inl e \<Rightarrow> failed s (evs @ [DbFindAll bundle_ids])
              | Inr existingGames \<Rightarrow>
                  (let existingBundleIds = map row_bundleId existingGames in
                   case newGames existingBundleIds topGames of
                     Inl e \<Rightarrow> failed s (evs @ [DbFindAll bundle_ids])
                   | Inr new_games \<Rightarrow>
                       if length new_games = 0 then
                         \<lparr> sent = \<lparr> http_status = 200,
                                     payload = MessageBody ''No new games to add.'' \<rparr>,
                           store = s, events = evs @ [DbFindAll bundle_ids] \<rparr>
                       else
                         (case bulkCreate db s new_games of
                            Inl e \<Rightarrow>
                              failed s (evs @ [DbFindAll bundle_ids, DbBulkCreate new_games])
                          | Inr s' \<Rightarrow>
                              \<lparr> sent = \<lparr> http_status = 201,
                                          payload = AddedBody (length new_games) \<rparr>,
                                store = s',
                                events = evs @ [DbFindAll bundle_ids, DbBulkCreate new_games,
                                  ConsoleLog (''Populated '' @ show_nat (length new_games)
                                    @ '' new games.'')] \<rparr>)))))"

text \<open>
  The handler of \<open>POST /api/games/populate\<close>, lines 93 to 154. \<open>Promise.all\<close> starts both
  fetches and rejects when one of them rejects.
\<close>

definition populate ::
  "env \<Rightarrow> (string \<Rightarrow> error + response) \<Rightarrow> 's persistence \<Rightarrow> 's \<Rightarrow> 's outcome" where
  "populate ev net db s =
     (if unset (JSON_URL_IOS ev) \<or> unset (JSON_URL_ANDROID ev) then
        \<lparr> sent = \<lparr> http_status = 500,
                    payload = ErrorBody ''Missing IOS_JSON_URL or ANDROID_JSON_URL in .env'' \<rparr>,
          store = s,
          events = [ConsoleLog ''***The file .env file is missing or incomplete (tip: run `cp .env.example .env`)''] \<rparr>
      else
        (let iosUrl = url_of (JSON_URL_IOS ev);
             androidUrl = url_of (JSON_URL_ANDROID ev);
             (ios, ios_events) = fetchAggregatedTopGames net iosUrl;
             (android, android_events) = fetchAggregatedTopGames net androidUrl;
             evs = ios_events @ android_events
         in case ios of
              Inl e \<Rightarrow> failed s evs
            | Inr iosGames \<Rightarrow>
                (case android of
                   Inl e \<Rightarrow> failed s evs
                 | Inr androidGames \<Rightarrow> on_fetched db s evs iosGames androidGames)))"

section \<open>Concrete collaborators\<close>

text \<open>A network given by a table: a URL in the table resolves to its response, any other request is rejected.\<close>

definition serve :: "(string \<times> response) list \<Rightarrow> string \<Rightarrow> error + response" where
  "serve table url = (case map_of table url of None \<Rightarrow> Inl FetchRejected | Some r \<Rightarrow> Inr r)"

definition ok_json :: "jsval \<Rightarrow> response" where
  "ok_json data = \<lparr> status = 200, json_body = Inr data \<rparr>"

text \<open>
  Modelled from the spec: the persistence layer behind \<open>db.Game\<close> (the repository's
  \<open>models\<close> module is not among the sources). The spec's interface is
  \<open>findAllExisting(bundleIds) -> Sequence<{bundleId}>\<close>, the rows already persisted
  whose \<open>bundleId\<close> is among the given values, and \<open>bulkInsert(entities) -> void\<close>, one
  call that persists the whole batch. The state is the list of persisted entities.
\<close>

definition memory_store :: "game_entity list persistence" where
  "memory_store =
     \<lparr> findAll = (\<lambda>rows bundle_ids.
          Inr (map (\<lambda>e. \<lparr> row_bundleId = bundleId e \<rparr>)
                 (filter (\<lambda>e. bundleId e \<in> set bundle_ids) rows))),
       bulkCreate = (\<lambda>rows entities. Inr (rows @ entities)) \<rparr>"

text \<open>The same store when the batch insert is rejected (the spec's \<open>PersistenceError\<close>).\<close>

definition rejecting_store :: "game_entity list persistence" where
  "rejecting_store = memory_store \<lparr> bulkCreate := (\<lambda>rows entities. Inl PersistenceError) \<rparr>"

section \<open>Vocabulary of the statements\<close>

text \<open>What one element of the parsed body contributes to the flattened output.\<close>

definition spread :: "jsval \<Rightarrow> jsval list" where
  "spread g = (if isArray g then elements g else [g])"

text \<open>The shape the feeds are expected to have: an array whose elements are arrays.\<close>

definition array_of_arrays :: "jsval \<Rightarrow> bool" where
  "array_of_arrays data = (isArray data \<and> list_all isArray (elements data))"

text \<open>The values that are compared by value: everything but arrays and objects.\<close>

fun primitive :: "jsval \<Rightarrow> bool" where
  "primitive (JArr xs) = False"
| "primitive (JObj kvs) = False"
| "primitive v = True"

fun is_network_call :: "event \<Rightarrow> bool" where
  "is_network_call (NetFetch url) = True"
| "is_network_call ev = False"

fun is_persistence_call :: "event \<Rightarrow> bool" where
  "is_persistence_call (DbFindAll bundle_ids) = True"
| "is_persistence_call (DbBulkCreate entities) = True"
| "is_persistence_call ev = False"

fun is_insert :: "event \<Rightarrow> bool" where
  "is_insert (DbBulkCreate entities) = True"
| "is_insert ev = False"

text \<open>The two replies that do not depend on the data.\<close>

definition no_new_games :: reply where
  "no_new_games = \<lparr> http_status = 200, payload = MessageBody ''No new games to add.'' \<rparr>"

definition generic_failure :: reply where
  "generic_failure = \<lparr> http_status = 500, payload = ErrorBody ''Failed to populate database'' \<rparr>"

section \<open>Sample data\<close>

text \<open>
  The records, entities and feeds of the scenarios: a configured environment, two feeds
  that each return one group of records, and a feed URL that answers 404.
\<close>

definition game_a :: jsval where
  "game_a = JObj [(''bundle_id'', JStr ''a''), (''os'', JStr ''ios''), (''app_id'', JNum ''1''),
                  (''publisher_id'', JNum ''9''), (''name'', JStr ''G1'')]"

definition game_b :: jsval where
  "game_b = JObj [(''publisher_id'', JNum ''7''), (''name'', JStr ''G2''), (''os'', JStr ''android''),
                  (''app_id'', JStr ''com.b''), (''bundle_id'', JStr ''b''), (''version'', JStr ''1.2'')]"

definition game_without_bundle_id :: jsval where
  "game_without_bundle_id =
     JObj [(''publisher_id'', JNum ''5''), (''name'', JStr ''G3''), (''os'', JStr ''ios''), (''app_id'', JNum ''3'')]"

definition game_without_app_id :: jsval where
  "game_without_app_id = JObj [(''bundle_id'', JStr ''c''), (''os'', JStr ''ios''), (''name'', JStr ''G4'')]"

definition game_c :: jsval where
  "game_c = JObj [(''bundle_id'', JStr ''d''), (''os'', JStr ''IOS''), (''app_id'', JNum ''1444253833''),
                  (''publisher_id'', JNum ''12''), (''name'', JStr ''G5''), (''version'', JStr [])]"

definition game_with_array_bundle_id :: jsval where
  "game_with_array_bundle_id =
     JObj [(''bundle_id'', JArr [JStr ''a'']), (''os'', JStr ''ios''), (''app_id'', JNum ''1''),
           (''publisher_id'', JNum ''9''), (''name'', JStr ''G1'')]"

definition entity_a :: game_entity where
  "entity_a = \<lparr> publisherId = JNum ''9'', name = JStr ''G1'', platform = ''ios'', storeId = ''1'',
                 bundleId = JStr ''a'', appVersion = JStr [], isPublished = True \<rparr>"

definition entity_b :: game_entity where
  "entity_b = \<lparr> publisherId = JNum ''7'', name = JStr ''G2'', platform = ''android'', storeId = ''com.b'',
                 bundleId = JStr ''b'', appVersion = JStr ''1.2'', isPublished = True \<rparr>"

definition entity_c :: game_entity where
  "entity_c = \<lparr> publisherId = JNum ''12'', name = JStr ''G5'', platform = ''android'',
                 storeId = ''1444253833'', bundleId = JStr ''d'', appVersion = JStr [],
                 isPublished = True \<rparr>"

definition entity_with_array_bundle_id :: game_entity where
  "entity_with_array_bundle_id =
     \<lparr> publisherId = JNum ''9'', name = JStr ''G1'', platform = ''ios'', storeId = ''1'',
       bundleId = JArr [JStr ''a''], appVersion = JStr [], isPublished = True \<rparr>"

definition feeds :: "jsval list \<Rightarrow> jsval list \<Rightarrow> string \<Rightarrow> error + response" where
  "feeds iosGames androidGames =
     serve [(''ios'', ok_json (JArr [JArr iosGames])), (''android'', ok_json (JArr [JArr androidGames]))]"

definition not_found :: response where
  "not_found = \<lparr> status = 404, json_body = Inl JsonSyntaxError \<rparr>"

definition configured :: env where
  "configured = \<lparr> JSON_URL_IOS = Some ''ios'', JSON_URL_ANDROID = Some ''android'' \<rparr>"

section \<open>The feed fetcher flattens one level\<close>

lemma foldl_concat_js: "foldl concat_js acc gs = acc @ concat (map spread gs)"
  by (induction gs arbitrary: acc) (simp_all add: concat_js_def spread_def)

lemma flatten_spread: "flatten data = concat (map spread (elements data))"
  by (simp add: flatten_def foldl_concat_js)

lemma spread_JArr: "map spread (map JArr groups) = groups"
  by (induction groups) (simp_all add: spread_def)

lemma flatten_groups: "flatten (JArr (map JArr groups)) = concat groups"
  by (simp add: flatten_spread spread_JArr del: map_map)

text \<open>
  Claim C3. When the response is a success and its body parses to an array of arrays,
  the fetcher resolves to the concatenation of the groups, in their order: the output is
  as long as the inner arrays together, and elements keep their relative order within a
  group and across groups.
\<close>

theorem fetch_flattens_groups:
  assumes "net url = Inr r" and "ok r" and "json_body r = Inr (JArr (map JArr groups))"
  shows "\<exists>out. fst (fetchAggregatedTopGames net url) = Inr out
           \<and> length out = sum_list (map length groups)
           \<and> out = concat groups"
  using assms by (simp add: fetchAggregatedTopGames_def flatten_groups length_concat)

theorem fetch_flattens_groups_witness:
  "serve [(''ios'', ok_json (JArr (map JArr [[JNum ''1'', JNum ''2''], [], [JNum ''3'']])))] ''ios''
     = Inr (ok_json (JArr (map JArr [[JNum ''1'', JNum ''2''], [], [JNum ''3'']])))
   \<and> ok (ok_json (JArr (map JArr [[JNum ''1'', JNum ''2''], [], [JNum ''3'']])))
   \<and> fst (fetchAggregatedTopGames
        (serve [(''ios'', ok_json (JArr (map JArr [[JNum ''1'', JNum ''2''], [], [JNum ''3'']])))]) ''ios'')
     = Inr [JNum ''1'', JNum ''2'', JNum ''3'']
   \<and> length [JNum ''1'', JNum ''2'', JNum ''3''] = sum_list (map length [[JNum ''1'', JNum ''2''], [], [JNum ''3'']])"
proof -
  let ?groups = "[[JNum ''1'', JNum ''2''], [], [JNum ''3'']]"
  let ?r = "ok_json (JArr (map JArr ?groups))"
  have served: "serve [(''ios'', ?r)] ''ios'' = Inr ?r"
    by (simp add: serve_def)
  have good: "ok ?r"
    by (simp add: ok_def ok_json_def)
  have parsed: "json_body ?r = Inr (JArr (map JArr ?groups))"
    by (simp add: ok_json_def)
  from fetch_flattens_groups [where net = "serve [(''ios'', ?r)]" and url = "''ios''", OF served good parsed]
    served good
  show ?thesis by simp
qed

section \<open>The fetcher's two checks\<close>

text \<open>
  Claim C8. A response whose status is not in 200 to 299 makes the fetcher reject with
  the error that carries the status code; the only events are the request and the log
  line of the final \<open>catch\<close>, so the body is never parsed.
\<close>

theorem fetch_http_error_before_parse:
  assumes "net url = Inr r" and "\<not> (200 \<le> status r \<and> status r \<le> 299)"
  shows "fetchAggregatedTopGames net url
           = (Inl (HttpError (status r)), [NetFetch url, ConsoleError (HttpError (status r))])
         \<and> JsonParse url \<notin> set (snd (fetchAggregatedTopGames net url))"
  using assms by (simp add: fetchAggregatedTopGames_def ok_def)

theorem fetch_http_error_before_parse_witness:
  "serve [(''ios'', \<lparr> status = 404, json_body = Inr (JArr []) \<rparr>)] ''ios''
     = Inr \<lparr> status = 404, json_body = Inr (JArr []) \<rparr>
   \<and> \<not> (200 \<le> (404::nat) \<and> (404::nat) \<le> 299)
   \<and> fetchAggregatedTopGames (serve [(''ios'', \<lparr> status = 404, json_body = Inr (JArr []) \<rparr>)]) ''ios''
     = (Inl (HttpError 404), [NetFetch ''ios'', ConsoleError (HttpError 404)])"
proof -
  let ?r = "\<lparr> status = 404, json_body = Inr (JArr []) \<rparr>"
  have served: "serve [(''ios'', ?r)] ''ios'' = Inr ?r"
    by (simp add: serve_def)
  have bad: "\<not> (200 \<le> status ?r \<and> status ?r \<le> 299)"
    by simp
  from fetch_http_error_before_parse [where net = "serve [(''ios'', ?r)]" and url = "''ios''", OF served bad]
    served
  show ?thesis by simp
qed

text \<open>
  Claim C5, as stated, fails: the body \<open>[1]\<close> is an array but not an array of arrays,
  and the fetcher resolves to \<open>[1]\<close> instead of rejecting.
\<close>

theorem fetch_accepts_array_of_non_arrays:
  "\<not> array_of_arrays (JArr [JNum ''1''])
   \<and> fetchAggregatedTopGames (serve [(''ios'', ok_json (JArr [JNum ''1'']))]) ''ios''
       = (Inr [JNum ''1''], [NetFetch ''ios'', JsonParse ''ios''])"
  by (simp add: array_of_arrays_def fetchAggregatedTopGames_def serve_def ok_json_def ok_def
      flatten_def concat_js_def)

text \<open>
  Claim C5, amended. The fetcher checks the top level only: on a successful response it
  rejects with the unexpected-structure error when the parsed body is not an array, and
  when it is an array it resolves, whatever the elements are; an element that is an array
  is spread into the output and any other element is kept as one element.
\<close>

theorem fetch_rejects_only_non_array:
  assumes "net url = Inr r" and "ok r" and "json_body r = Inr data"
  shows "(\<not> isArray data \<longrightarrow>
            fst (fetchAggregatedTopGames net url) = Inl UnexpectedJsonStructure)
         \<and> (isArray data \<longrightarrow>
            fst (fetchAggregatedTopGames net url) = Inr (concat (map spread (elements data))))"
  using assms by (simp add: fetchAggregatedTopGames_def flatten_spread)

theorem fetch_rejects_only_non_array_witness:
  "serve [(''ios'', ok_json (JObj [(''games'', JArr [])])),
          (''android'', ok_json (JArr [JNum ''1'', JArr [JNum ''2'']]))] ''ios''
     = Inr (ok_json (JObj [(''games'', JArr [])]))
   \<and> ok (ok_json (JObj [(''games'', JArr [])]))
   \<and> \<not> isArray (JObj [(''games'', JArr [])])
   \<and> fst (fetchAggregatedTopGames
        (serve [(''ios'', ok_json (JObj [(''games'', JArr [])])),
                (''android'', ok_json (JArr [JNum ''1'', JArr [JNum ''2'']]))]) ''ios'')
     = Inl UnexpectedJsonStructure
   \<and> isArray (JArr [JNum ''1'', JArr [JNum ''2'']])
   \<and> fst (fetchAggregatedTopGames
        (serve [(''ios'', ok_json (JObj [(''games'', JArr [])])),
                (''android'', ok_json (JArr [JNum ''1'', JArr [JNum ''2'']]))]) ''android'')
     = Inr [JNum ''1'', JNum ''2'']"
proof -
  let ?bad = "JObj [(''games'', JArr [])]"
  let ?mixed = "JArr [JNum ''1'', JArr [JNum ''2'']]"
  let ?net = "serve [(''ios'', ok_json ?bad), (''android'', ok_json ?mixed)]"
  have s1: "?net ''ios'' = Inr (ok_json ?bad)" by (simp add: serve_def)
  have s2: "?net ''android'' = Inr (ok_json ?mixed)" by (simp add: serve_def)
  have g1: "ok (ok_json ?bad)" and g2: "ok (ok_json ?mixed)"
    by (simp_all add: ok_def ok_json_def)
  have p1: "json_body (ok_json ?bad) = Inr ?bad" and p2: "json_body (ok_json ?mixed) = Inr ?mixed"
    by (simp_all add: ok_json_def)
  from fetch_rejects_only_non_array [where net = ?net and url = "''ios''", OF s1 g1 p1]
    fetch_rejects_only_non_array [where net = ?net and url = "''android''", OF s2 g2 p2] s1 g1
  show ?thesis by (simp add: spread_def)
qed

section \<open>Loops with a callback that may throw\<close>

lemma filter_err_Inr:
  "filter_err p xs = Inr ys \<Longrightarrow> ys = filter (\<lambda>x. p x = Inr True) xs"
  by (induction xs arbitrary: ys) (auto split: sum.splits if_splits)

lemma filter_err_defined:
  "filter_err p xs = Inr ys \<Longrightarrow> x \<in> set xs \<Longrightarrow> \<exists>b. p x = Inr b"
  by (induction xs arbitrary: ys) (auto split: sum.splits)

lemma filter_err_drop:
  "p r = Inr False \<Longrightarrow> filter_err p (xs @ r # ys) = filter_err p (xs @ ys)"
  by (induction xs) (simp_all split: sum.splits)

lemma filter_err_none:
  "\<forall>x\<in>set xs. p x = Inr False \<Longrightarrow> filter_err p xs = Inr []"
  by (induction xs) simp_all

lemma map_err_Inr:
  "map_err f ys = Inr zs \<longleftrightarrow> list_all2 (\<lambda>y z. f y = Inr z) ys zs"
proof (induction ys arbitrary: zs)
  case Nil
  show ?case by auto
next
  case (Cons y ys)
  show ?case
  proof (cases "f y")
    case (Inl e)
    then show ?thesis by (auto simp: list_all2_Cons1)
  next
    case (Inr z)
    then show ?thesis using Cons.IH
      by (cases "map_err f ys") (auto simp: list_all2_Cons1)
  qed
qed

lemma map_err_member:
  "map_err f xs = Inr ys \<Longrightarrow> x \<in> set xs \<Longrightarrow> f x = Inr y \<Longrightarrow> y \<in> set ys"
  by (induction xs arbitrary: ys) (auto split: sum.splits)

lemma list_all2_right:
  "list_all2 P xs ys \<Longrightarrow> y \<in> set ys \<Longrightarrow> \<exists>x\<in>set xs. P x y"
  by (induction rule: list_all2_induct) auto

lemma list_all2_left:
  "list_all2 P xs ys \<Longrightarrow> x \<in> set xs \<Longrightarrow> \<exists>y\<in>set ys. P x y"
  by (induction rule: list_all2_induct) auto

section \<open>The Dedup Filter\<close>

lemma to_entity_fields:
  assumes "to_entity g = Inr e"
  shows "get_prop g ''bundle_id'' = Inr (bundleId e)"
    and "get_prop g ''publisher_id'' = Inr (publisherId e)"
    and "get_prop g ''name'' = Inr (name e)"
    and "platform e = (if get_prop g ''os'' = Inr (JStr ''ios'') then ''ios'' else ''android'')"
    and "\<exists>app_id. get_prop g ''app_id'' = Inr app_id \<and> toString app_id = Inr (storeId e)"
    and "\<exists>version. get_prop g ''version'' = Inr version
           \<and> appVersion e = (if truthy version then version else JStr [])"
    and "isPublished e"
  using assms by (auto simp: to_entity_def bind_err_def split: sum.splits)

lemma keep_game_True:
  "keep_game existing g = Inr True \<longleftrightarrow>
     (\<exists>b. get_prop g ''bundle_id'' = Inr b \<and> truthy b \<and> \<not> set_has existing b)"
  by (auto simp: keep_game_def bind_err_def split: sum.splits)

lemma newGames_Inr:
  "newGames existing topGames = Inr ents \<Longrightarrow>
     filter_err (keep_game existing) topGames
       = Inr (filter (\<lambda>g. keep_game existing g = Inr True) topGames)
     \<and> list_all2 (\<lambda>g e. to_entity g = Inr e)
         (filter (\<lambda>g. keep_game existing g = Inr True) topGames) ents"
  by (auto simp: newGames_def bind_err_def map_err_Inr split: sum.splits dest: filter_err_Inr)

lemma set_has_primitive: "primitive v \<Longrightarrow> set_has elems v \<longleftrightarrow> v \<in> set elems"
  by (induction elems) (auto simp: set_has_def elim: same_value_zero.elims primitive.elims)

text \<open>
  Claim C1. An entity the Dedup Filter emits has a \<open>bundleId\<close> that is truthy (so it is
  not \<open>undefined\<close>, \<open>null\<close> or the empty string) and that the set of existing keys does
  not hold. A record whose \<open>bundle_id\<close> is falsy or already known is dropped without an
  error: the filter callback returns false for it, and the filter's result, an error of
  another record included, is the same as on the input without that record.
\<close>

theorem dedup_never_emits_known_or_empty:
  "(newGames existing topGames = Inr ents \<and> e \<in> set ents \<longrightarrow>
      bundleId e \<noteq> JUndefined \<and> bundleId e \<noteq> JNull \<and> bundleId e \<noteq> JStr []
      \<and> truthy (bundleId e)
      \<and> \<not> set_has existing (bundleId e)
      \<and> (primitive (bundleId e) \<longrightarrow> bundleId e \<notin> set existing))
   \<and> (get_prop r ''bundle_id'' = Inr b \<and> (\<not> truthy b \<or> set_has existing b) \<longrightarrow>
      keep_game existing r = Inr False
      \<and> newGames existing (xs @ r # ys) = newGames existing (xs @ ys))"
proof (intro conjI impI)
  assume a: "newGames existing topGames = Inr ents \<and> e \<in> set ents"
  let ?kept = "filter (\<lambda>g. keep_game existing g = Inr True) topGames"
  from a newGames_Inr have "list_all2 (\<lambda>g e. to_entity g = Inr e) ?kept ents"
    by blast
  with a obtain g where g: "g \<in> set ?kept" "to_entity g = Inr e"
    by (blast dest: list_all2_right)
  from g(1) have "keep_game existing g = Inr True" by simp
  then obtain b' where b': "get_prop g ''bundle_id'' = Inr b'" "truthy b'" "\<not> set_has existing b'"
    by (auto simp: keep_game_True)
  from to_entity_fields(1) [OF g(2)] b'(1) have eq: "bundleId e = b'" by simp
  from eq b'(2) show "truthy (bundleId e)" by simp
  from eq b'(2) show "bundleId e \<noteq> JUndefined" by auto
  from eq b'(2) show "bundleId e \<noteq> JNull" by auto
  from eq b'(2) show "bundleId e \<noteq> JStr []" by auto
  from eq b'(3) show "\<not> set_has existing (bundleId e)" by simp
  assume "primitive (bundleId e)"
  with eq b'(3) show "bundleId e \<notin> set existing" by (simp add: set_has_primitive)
next
  assume a: "get_prop r ''bundle_id'' = Inr b \<and> (\<not> truthy b \<or> set_has existing b)"
  then show k: "keep_game existing r = Inr False"
    by (auto simp: keep_game_def bind_err_def)
  then show "newGames existing (xs @ r # ys) = newGames existing (xs @ ys)"
    by (simp add: newGames_def filter_err_drop)
qed

theorem dedup_never_emits_known_or_empty_witness:
  "newGames [JStr ''b''] [game_a, game_b, game_without_bundle_id] = Inr [entity_a]
   \<and> entity_a \<in> set [entity_a]
   \<and> bundleId entity_a = JStr ''a''
   \<and> truthy (bundleId entity_a)
   \<and> \<not> set_has [JStr ''b''] (bundleId entity_a)
   \<and> bundleId entity_a \<notin> set [JStr ''b'']
   \<and> get_prop game_b ''bundle_id'' = Inr (JStr ''b'')
   \<and> set_has [JStr ''b''] (JStr ''b'')
   \<and> keep_game [JStr ''b''] game_b = Inr False
   \<and> newGames [JStr ''b''] ([game_a] @ game_b # [game_without_bundle_id])
       = newGames [JStr ''b''] ([game_a] @ [game_without_bundle_id])"
proof -
  have emitted: "newGames [JStr ''b''] [game_a, game_b, game_without_bundle_id] = Inr [entity_a]"
    by code_simp
  have known: "get_prop game_b ''bundle_id'' = Inr (JStr ''b'')"
    by (simp add: game_b_def)
  have has: "set_has [JStr ''b''] (JStr ''b'')"
    by (simp add: set_has_def)
  have prim: "primitive (bundleId entity_a)" and bid: "bundleId entity_a = JStr ''a''"
    by (simp_all add: entity_a_def)
  from dedup_never_emits_known_or_empty
    [of "[JStr ''b'']" "[game_a, game_b, game_without_bundle_id]" "[entity_a]" entity_a
        game_b "JStr ''b''" "[game_a]" "[game_without_bundle_id]"]
    emitted known has prim bid
  show ?thesis by simp
qed

text \<open>
  Claim C2. The emitted entities are, in order, the images of the records that passed
  the filter. For each: \<open>platform\<close> is \<open>ios\<close> when the record's \<open>os\<close> is the string
  \<open>ios\<close> and \<open>android\<close> otherwise; \<open>storeId\<close> is what \<open>app_id.toString()\<close> returns, which
  is the string itself when \<open>app_id\<close> is a string, the rendering of the number when it is a
  number and \<open>true\<close> or \<open>false\<close> when it is a boolean, and \<open>app_id\<close> is neither \<open>undefined\<close>
  nor \<open>null\<close>; \<open>appVersion\<close> is \<open>version || ''\<close>, which is the version itself when it is a
  string and the empty string when it is absent; \<open>isPublished\<close> is true.
\<close>

theorem dedup_entity_fields:
  assumes "newGames existing topGames = Inr ents"
  shows "list_all2
           (\<lambda>g e. platform e = (if get_prop g ''os'' = Inr (JStr ''ios'') then ''ios'' else ''android'')
                \<and> (\<exists>app_id. get_prop g ''app_id'' = Inr app_id \<and> toString app_id = Inr (storeId e)
                      \<and> (\<forall>s. app_id = JStr s \<longrightarrow> storeId e = s)
                      \<and> (\<forall>r. app_id = JNum r \<longrightarrow> storeId e = r)
                      \<and> (\<forall>b. app_id = JBool b \<longrightarrow> storeId e = (if b then ''true'' else ''false''))
                      \<and> app_id \<noteq> JUndefined \<and> app_id \<noteq> JNull)
                \<and> (\<exists>version. get_prop g ''version'' = Inr version
                      \<and> appVersion e = (if truthy version then version else JStr [])
                      \<and> (version = JUndefined \<longrightarrow> appVersion e = JStr [])
                      \<and> (\<forall>s. version = JStr s \<longrightarrow> appVersion e = JStr s))
                \<and> isPublished e)
           (filter (\<lambda>g. keep_game existing g = Inr True) topGames) ents"
proof -
  have step: "to_entity g = Inr e \<Longrightarrow>
      platform e = (if get_prop g ''os'' = Inr (JStr ''ios'') then ''ios'' else ''android'')
      \<and> (\<exists>app_id. get_prop g ''app_id'' = Inr app_id \<and> toString app_id = Inr (storeId e)
            \<and> (\<forall>s. app_id = JStr s \<longrightarrow> storeId e = s)
            \<and> (\<forall>r. app_id = JNum r \<longrightarrow> storeId e = r)
            \<and> (\<forall>b. app_id = JBool b \<longrightarrow> storeId e = (if b then ''true'' else ''false''))
            \<and> app_id \<noteq> JUndefined \<and> app_id \<noteq> JNull)
      \<and> (\<exists>version. get_prop g ''version'' = Inr version
            \<and> appVersion e = (if truthy version then version else JStr [])
            \<and> (version = JUndefined \<longrightarrow> appVersion e = JStr [])
            \<and> (\<forall>s. version = JStr s \<longrightarrow> appVersion e = JStr s))
      \<and> isPublished e" for g e
  proof -
    assume made: "to_entity g = Inr e"
    from to_entity_fields(5) [OF made] obtain app_id
      where app: "get_prop g ''app_id'' = Inr app_id" "toString app_id = Inr (storeId e)"
      by blast
    from app(2) have forms: "(\<forall>s. app_id = JStr s \<longrightarrow> storeId e = s)
        \<and> (\<forall>r. app_id = JNum r \<longrightarrow> storeId e = r)
        \<and> (\<forall>b. app_id = JBool b \<longrightarrow> storeId e = (if b then ''true'' else ''false''))
        \<and> app_id \<noteq> JUndefined \<and> app_id \<noteq> JNull"
      by (cases app_id) auto
    from to_entity_fields(6) [OF made] obtain version
      where ver: "get_prop g ''version'' = Inr version"
        "appVersion e = (if truthy version then version else JStr [])"
      by blast
    from ver(2) have absent: "(version = JUndefined \<longrightarrow> appVersion e = JStr [])
        \<and> (\<forall>s. version = JStr s \<longrightarrow> appVersion e = JStr s)"
      by auto
    from to_entity_fields(4,7) [OF made] app forms ver absent show ?thesis
      by blast
  qed
  from newGames_Inr [OF assms]
  have "list_all2 (\<lambda>g e. to_entity g = Inr e)
          (filter (\<lambda>g. keep_game existing g = Inr True) topGames) ents"
    by simp
  then show ?thesis
    by (rule list_all2_mono) (rule step)
qed

theorem dedup_entity_fields_witness:
  "newGames [] [game_a, game_b, game_without_bundle_id, game_c] = Inr [entity_a, entity_b, entity_c]
   \<and> filter (\<lambda>g. keep_game [] g = Inr True) [game_a, game_b, game_without_bundle_id, game_c]
       = [game_a, game_b, game_c]
   \<and> get_prop game_a ''os'' = Inr (JStr ''ios'') \<and> platform entity_a = ''ios''
   \<and> get_prop game_b ''os'' = Inr (JStr ''android'') \<and> platform entity_b = ''android''
   \<and> get_prop game_c ''os'' = Inr (JStr ''IOS'') \<and> platform entity_c = ''android''
   \<and> get_prop game_a ''app_id'' = Inr (JNum ''1'') \<and> storeId entity_a = ''1''
   \<and> get_prop game_b ''app_id'' = Inr (JStr ''com.b'') \<and> storeId entity_b = ''com.b''
   \<and> get_prop game_c ''app_id'' = Inr (JNum ''1444253833'') \<and> storeId entity_c = ''1444253833''
   \<and> get_prop game_a ''version'' = Inr JUndefined \<and> appVersion entity_a = JStr []
   \<and> get_prop game_b ''version'' = Inr (JStr ''1.2'') \<and> appVersion entity_b = JStr ''1.2''
   \<and> get_prop game_c ''version'' = Inr (JStr []) \<and> appVersion entity_c = JStr []
   \<and> isPublished entity_a \<and> isPublished entity_b \<and> isPublished entity_c"
proof -
  have emitted: "newGames [] [game_a, game_b, game_without_bundle_id, game_c]
                   = Inr [entity_a, entity_b, entity_c]"
    by code_simp
  have kept: "filter (\<lambda>g. keep_game [] g = Inr True) [game_a, game_b, game_without_bundle_id, game_c]
                = [game_a, game_b, game_c]"
    by (simp add: keep_game_def bind_err_def set_has_def game_a_def game_b_def game_c_def
        game_without_bundle_id_def)
  have props: "get_prop game_a ''os'' = Inr (JStr ''ios'')"
    "get_prop game_b ''os'' = Inr (JStr ''android'')"
    "get_prop game_c ''os'' = Inr (JStr ''IOS'')"
    "get_prop game_a ''app_id'' = Inr (JNum ''1'')"
    "get_prop game_b ''app_id'' = Inr (JStr ''com.b'')"
    "get_prop game_c ''app_id'' = Inr (JNum ''1444253833'')"
    "get_prop game_a ''version'' = Inr JUndefined"
    "get_prop game_b ''version'' = Inr (JStr ''1.2'')"
    "get_prop game_c ''version'' = Inr (JStr [])"
    by (simp_all add: game_a_def game_b_def game_c_def)
  from dedup_entity_fields [OF emitted] emitted kept props
  show ?thesis by (simp add: entity_a_def entity_b_def entity_c_def)
qed

section \<open>The populate handler\<close>

lemma fetch_no_persistence:
  "filter is_persistence_call (snd (fetchAggregatedTopGames net url)) = []"
  by (simp add: fetchAggregatedTopGames_def split: sum.splits)

lemma fetch_no_insert:
  "filter is_insert (snd (fetchAggregatedTopGames net url)) = []"
  by (simp add: fetchAggregatedTopGames_def split: sum.splits)

lemma populate_unset:
  "unset (JSON_URL_IOS ev) \<or> unset (JSON_URL_ANDROID ev) \<Longrightarrow>
   populate ev net db s =
     \<lparr> sent = \<lparr> http_status = 500,
                 payload = ErrorBody ''Missing IOS_JSON_URL or ANDROID_JSON_URL in .env'' \<rparr>,
       store = s,
       events = [ConsoleLog ''***The file .env file is missing or incomplete (tip: run `cp .env.example .env`)''] \<rparr>"
  by (simp add: populate_def)

lemma populate_rejected:
  assumes "\<not> unset (JSON_URL_IOS ev)" and "\<not> unset (JSON_URL_ANDROID ev)"
    and "fst (fetchAggregatedTopGames net (url_of (JSON_URL_IOS ev))) = Inl e
         \<or> fst (fetchAggregatedTopGames net (url_of (JSON_URL_ANDROID ev))) = Inl e"
  shows "populate ev net db s =
           failed s (snd (fetchAggregatedTopGames net (url_of (JSON_URL_IOS ev)))
                     @ snd (fetchAggregatedTopGames net (url_of (JSON_URL_ANDROID ev))))"
  using assms by (auto simp: populate_def Let_def split: prod.splits sum.splits)

lemma populate_fetched:
  assumes "\<not> unset (JSON_URL_IOS ev)" and "\<not> unset (JSON_URL_ANDROID ev)"
    and "fetchAggregatedTopGames net (url_of (JSON_URL_IOS ev)) = (Inr iosGames, ios_events)"
    and "fetchAggregatedTopGames net (url_of (JSON_URL_ANDROID ev)) = (Inr androidGames, android_events)"
  shows "populate ev net db s = on_fetched db s (ios_events @ android_events) iosGames androidGames"
  using assms by (simp add: populate_def)

lemma on_fetched_filtered:
  assumes "map_err (\<lambda>game. get_prop game ''bundle_id'') (iosGames @ androidGames) = Inr bundle_ids"
    and "findAll db s bundle_ids = Inr existingGames"
    and "newGames (map row_bundleId existingGames) (iosGames @ androidGames) = Inr new_games"
  shows "on_fetched db s evs iosGames androidGames =
           (if new_games = [] then
              \<lparr> sent = no_new_games, store = s, events = evs @ [DbFindAll bundle_ids] \<rparr>
            else
              (case bulkCreate db s new_games of
                 Inl e \<Rightarrow> failed s (evs @ [DbFindAll bundle_ids, DbBulkCreate new_games])
               | Inr s' \<Rightarrow>
                   \<lparr> sent = \<lparr> http_status = 201, payload = AddedBody (length new_games) \<rparr>,
                     store = s',
                     events = evs @ [DbFindAll bundle_ids, DbBulkCreate new_games,
                       ConsoleLog (''Populated '' @ show_nat (length new_games) @ '' new games.'')] \<rparr>))"
  using assms by (simp add: on_fetched_def no_new_games_def)

lemma feeds_fetch:
  "fetchAggregatedTopGames (feeds iosGames androidGames) ''ios''
     = (Inr iosGames, [NetFetch ''ios'', JsonParse ''ios''])"
  "fetchAggregatedTopGames (feeds iosGames androidGames) ''android''
     = (Inr androidGames, [NetFetch ''android'', JsonParse ''android''])"
  by (simp_all add: feeds_def serve_def ok_json_def ok_def fetchAggregatedTopGames_def
      flatten_def concat_js_def)

lemma feeds_other:
  "fst (fetchAggregatedTopGames (feeds iosGames androidGames) url) = Inr games \<Longrightarrow>
     games = iosGames \<or> games = androidGames"
  by (auto simp: feeds_def serve_def ok_json_def ok_def fetchAggregatedTopGames_def
      flatten_def concat_js_def split: if_splits)

lemma configured_urls:
  "\<not> unset (JSON_URL_IOS configured)" "\<not> unset (JSON_URL_ANDROID configured)"
  "url_of (JSON_URL_IOS configured) = ''ios''" "url_of (JSON_URL_ANDROID configured) = ''android''"
  by (simp_all add: configured_def)

text \<open>
  Claim C9. When one of the two URL variables is not set (or is the empty string), the
  handler replies 500 with the missing-configuration error; the store is untouched and the
  run issues no network request and no persistence call.
\<close>

theorem unset_url_is_configuration_error:
  assumes "unset (JSON_URL_IOS ev) \<or> unset (JSON_URL_ANDROID ev)"
  shows "sent (populate ev net db s)
           = \<lparr> http_status = 500,
               payload = ErrorBody ''Missing IOS_JSON_URL or ANDROID_JSON_URL in .env'' \<rparr>
         \<and> store (populate ev net db s) = s
         \<and> filter is_network_call (events (populate ev net db s)) = []
         \<and> filter is_persistence_call (events (populate ev net db s)) = []"
  using assms by (simp add: populate_unset)

theorem unset_url_is_configuration_error_witness:
  "unset (JSON_URL_IOS \<lparr> JSON_URL_IOS = None, JSON_URL_ANDROID = Some ''android'' \<rparr>)
   \<and> sent (populate \<lparr> JSON_URL_IOS = None, JSON_URL_ANDROID = Some ''android'' \<rparr>
              (feeds [game_a] []) memory_store [])
       = \<lparr> http_status = 500,
           payload = ErrorBody ''Missing IOS_JSON_URL or ANDROID_JSON_URL in .env'' \<rparr>
   \<and> store (populate \<lparr> JSON_URL_IOS = None, JSON_URL_ANDROID = Some ''android'' \<rparr>
              (feeds [game_a] []) memory_store []) = []
   \<and> filter is_network_call
         (events (populate \<lparr> JSON_URL_IOS = None, JSON_URL_ANDROID = Some ''android'' \<rparr>
                    (feeds [game_a] []) memory_store [])) = []
   \<and> filter is_persistence_call
         (events (populate \<lparr> JSON_URL_IOS = None, JSON_URL_ANDROID = Some ''android'' \<rparr>
                    (feeds [game_a] []) memory_store [])) = []"
proof -
  let ?ev = "\<lparr> JSON_URL_IOS = None, JSON_URL_ANDROID = Some ''android'' \<rparr>"
  have missing: "unset (JSON_URL_IOS ?ev) \<or> unset (JSON_URL_ANDROID ?ev)"
    by simp
  have "unset (JSON_URL_IOS ?ev)" by simp
  with unset_url_is_configuration_error [OF missing, of "feeds [game_a] []" memory_store "[]"]
  show ?thesis by blast
qed

text \<open>
  Claim C7. With both URLs configured, when either fetch rejects the handler replies
  with the one generic failure, whatever the other feed returned; the store is untouched,
  and the events of the run are those of the two fetches and the log line of the
  \<open>catch\<close>, with no persistence call among them.
\<close>

theorem failed_fetch_fails_run:
  assumes "\<not> unset (JSON_URL_IOS ev)" and "\<not> unset (JSON_URL_ANDROID ev)"
    and "fst (fetchAggregatedTopGames net (url_of (JSON_URL_IOS ev))) = Inl e
         \<or> fst (fetchAggregatedTopGames net (url_of (JSON_URL_ANDROID ev))) = Inl e"
  shows "sent (populate ev net db s) = generic_failure
         \<and> store (populate ev net db s) = s
         \<and> events (populate ev net db s)
             = snd (fetchAggregatedTopGames net (url_of (JSON_URL_IOS ev)))
               @ snd (fetchAggregatedTopGames net (url_of (JSON_URL_ANDROID ev)))
               @ [ConsoleLog ''***There was an error populating games'']
         \<and> filter is_persistence_call (events (populate ev net db s)) = []"
  using populate_rejected [OF assms, of db s]
  by (simp add: failed_def generic_failure_def fetch_no_persistence)

theorem failed_fetch_fails_run_witness:
  "\<not> unset (JSON_URL_IOS configured) \<and> \<not> unset (JSON_URL_ANDROID configured)
   \<and> fst (fetchAggregatedTopGames
            (serve [(''ios'', not_found), (''android'', ok_json (JArr [JArr [game_a]]))])
            (url_of (JSON_URL_IOS configured))) = Inl (HttpError 404)
   \<and> fst (fetchAggregatedTopGames
            (serve [(''ios'', not_found), (''android'', ok_json (JArr [JArr [game_a]]))])
            (url_of (JSON_URL_ANDROID configured))) = Inr [game_a]
   \<and> sent (populate configured
              (serve [(''ios'', not_found), (''android'', ok_json (JArr [JArr [game_a]]))])
              memory_store []) = generic_failure
   \<and> store (populate configured
              (serve [(''ios'', not_found), (''android'', ok_json (JArr [JArr [game_a]]))])
              memory_store []) = []
   \<and> filter is_persistence_call
         (events (populate configured
                    (serve [(''ios'', not_found), (''android'', ok_json (JArr [JArr [game_a]]))])
                    memory_store [])) = []"
proof -
  let ?net = "serve [(''ios'', not_found), (''android'', ok_json (JArr [JArr [game_a]]))]"
  have urls: "\<not> unset (JSON_URL_IOS configured)" "\<not> unset (JSON_URL_ANDROID configured)"
    by (simp_all add: configured_def)
  have ios: "fst (fetchAggregatedTopGames ?net (url_of (JSON_URL_IOS configured))) = Inl (HttpError 404)"
    by (simp add: configured_def serve_def not_found_def ok_def fetchAggregatedTopGames_def)
  have android: "fst (fetchAggregatedTopGames ?net (url_of (JSON_URL_ANDROID configured))) = Inr [game_a]"
    by (simp add: configured_def serve_def ok_json_def ok_def fetchAggregatedTopGames_def
        flatten_def concat_js_def)
  from ios
  have "fst (fetchAggregatedTopGames ?net (url_of (JSON_URL_IOS configured))) = Inl (HttpError 404)
        \<or> fst (fetchAggregatedTopGames ?net (url_of (JSON_URL_ANDROID configured))) = Inl (HttpError 404)"
    by (rule disjI1)
  from failed_fetch_fails_run [OF urls this, of memory_store "[]"] urls ios android
  show ?thesis by blast
qed

lemma get_prop_any:
  "get_prop r p = Inr v \<Longrightarrow> \<exists>w. get_prop r q = Inr w"
  by (cases r) simp_all

lemma to_entity_without_app_id:
  assumes "get_prop r ''bundle_id'' = Inr b" and "get_prop r ''app_id'' = Inr JUndefined"
  shows "to_entity r = Inl TypeError"
proof -
  obtain p n os where "get_prop r ''publisher_id'' = Inr p" "get_prop r ''name'' = Inr n"
    "get_prop r ''os'' = Inr os"
    using get_prop_any [OF assms(1)] by blast
  with assms(2) show ?thesis
    by (simp add: to_entity_def bind_err_def)
qed

lemma newGames_throws:
  assumes "r \<in> set topGames" and "keep_game existing r = Inr True" and "to_entity r = Inl e"
  shows "\<exists>e'. newGames existing topGames = Inl e'"
proof (cases "newGames existing topGames")
  case (Inl e')
  then show ?thesis by blast
next
  case (Inr ents)
  from newGames_Inr [OF Inr]
  have all: "list_all2 (\<lambda>g e. to_entity g = Inr e)
               (filter (\<lambda>g. keep_game existing g = Inr True) topGames) ents"
    by simp
  from assms(1,2) have "r \<in> set (filter (\<lambda>g. keep_game existing g = Inr True) topGames)"
    by simp
  from list_all2_left [OF all this] assms(3) show ?thesis by simp
qed

text \<open>
  Claim C10. A record of the combined feeds whose \<open>bundle_id\<close> is truthy and not among
  the existing keys, and whose \<open>app_id\<close> is missing, is not dropped: it passes the filter,
  which looks at \<open>bundle_id\<close> only, mapping it throws a \<open>TypeError\<close>, and the whole run
  ends in the generic failure reply, with the store untouched and no insert.
\<close>

theorem missing_app_id_fails_run:
  assumes "\<not> unset (JSON_URL_IOS ev)" and "\<not> unset (JSON_URL_ANDROID ev)"
    and "fetchAggregatedTopGames net (url_of (JSON_URL_IOS ev)) = (Inr iosGames, ios_events)"
    and "fetchAggregatedTopGames net (url_of (JSON_URL_ANDROID ev)) = (Inr androidGames, android_events)"
    and "r \<in> set (iosGames @ androidGames)"
    and "get_prop r ''bundle_id'' = Inr b" and "truthy b"
    and "\<forall>bundle_ids existingGames. findAll db s bundle_ids = Inr existingGames
           \<longrightarrow> \<not> set_has (map row_bundleId existingGames) b"
    and "get_prop r ''app_id'' = Inr JUndefined"
  shows "(\<forall>existing. \<not> set_has existing b \<longrightarrow> keep_game existing r = Inr True)
         \<and> to_entity r = Inl TypeError
         \<and> sent (populate ev net db s) = generic_failure
         \<and> store (populate ev net db s) = s
         \<and> filter is_insert (events (populate ev net db s)) = []"
proof -
  let ?top = "iosGames @ androidGames"
  let ?evs = "ios_events @ android_events"
  have thrown: "to_entity r = Inl TypeError"
    using assms(6,9) by (rule to_entity_without_app_id)
  have quiet: "filter is_insert ?evs = []"
    using fetch_no_insert [of net "url_of (JSON_URL_IOS ev)"]
      fetch_no_insert [of net "url_of (JSON_URL_ANDROID ev)"] assms(3,4) by simp
  have run: "populate ev net db s = on_fetched db s ?evs iosGames androidGames"
    using assms(1-4) by (rule populate_fetched)
  have "sent (on_fetched db s ?evs iosGames androidGames) = generic_failure
        \<and> store (on_fetched db s ?evs iosGames androidGames) = s
        \<and> filter is_insert (events (on_fetched db s ?evs iosGames androidGames)) = []"
  proof (cases "map_err (\<lambda>game. get_prop game ''bundle_id'') ?top")
    case (Inl e)
    with quiet show ?thesis
      by (simp add: on_fetched_def failed_def generic_failure_def)
  next
    case ids: (Inr bundle_ids)
    show ?thesis
    proof (cases "findAll db s bundle_ids")
      case (Inl e)
      with ids quiet show ?thesis
        by (simp add: on_fetched_def failed_def generic_failure_def)
    next
      case rows: (Inr existingGames)
      with assms(8) have "\<not> set_has (map row_bundleId existingGames) b" by blast
      with assms(6,7) have "keep_game (map row_bundleId existingGames) r = Inr True"
        by (simp add: keep_game_True)
      with assms(5) thrown
      obtain e' where "newGames (map row_bundleId existingGames) ?top = Inl e'"
        using newGames_throws by blast
      with ids rows quiet show ?thesis
        by (simp add: on_fetched_def failed_def generic_failure_def)
    qed
  qed
  moreover have "\<forall>existing. \<not> set_has existing b \<longrightarrow> keep_game existing r = Inr True"
    using assms(6,7) by (simp add: keep_game_True)
  ultimately show ?thesis using run thrown by simp
qed

theorem missing_app_id_fails_run_witness:
  "fetchAggregatedTopGames (feeds [game_without_app_id] [game_b]) (url_of (JSON_URL_IOS configured))
     = (Inr [game_without_app_id], [NetFetch ''ios'', JsonParse ''ios''])
   \<and> game_without_app_id \<in> set ([game_without_app_id] @ [game_b])
   \<and> get_prop game_without_app_id ''bundle_id'' = Inr (JStr ''c'')
   \<and> truthy (JStr ''c'')
   \<and> findAll memory_store [] [JStr ''c'', JStr ''b''] = Inr []
   \<and> get_prop game_without_app_id ''app_id'' = Inr JUndefined
   \<and> to_entity game_without_app_id = Inl TypeError
   \<and> sent (populate configured (feeds [game_without_app_id] [game_b]) memory_store [])
       = generic_failure
   \<and> store (populate configured (feeds [game_without_app_id] [game_b]) memory_store []) = []
   \<and> filter is_insert
         (events (populate configured (feeds [game_without_app_id] [game_b]) memory_store [])) = []"
proof -
  let ?net = "feeds [game_without_app_id] [game_b]"
  have ios: "fetchAggregatedTopGames ?net (url_of (JSON_URL_IOS configured))
               = (Inr [game_without_app_id], [NetFetch ''ios'', JsonParse ''ios''])"
    and android: "fetchAggregatedTopGames ?net (url_of (JSON_URL_ANDROID configured))
               = (Inr [game_b], [NetFetch ''android'', JsonParse ''android''])"
    by (simp_all add: configured_urls feeds_fetch)
  have mem: "game_without_app_id \<in> set ([game_without_app_id] @ [game_b])"
    by simp
  have bid: "get_prop game_without_app_id ''bundle_id'' = Inr (JStr ''c'')"
    and app: "get_prop game_without_app_id ''app_id'' = Inr JUndefined"
    by (simp_all add: game_without_app_id_def)
  have new: "truthy (JStr ''c'')"
    by simp
  have unknown: "\<forall>bundle_ids existingGames.
      findAll memory_store [] bundle_ids = Inr existingGames
        \<longrightarrow> \<not> set_has (map row_bundleId existingGames) (JStr ''c'')"
    by (auto simp: memory_store_def set_has_def)
  have looked: "findAll memory_store [] [JStr ''c'', JStr ''b''] = Inr []"
    by (simp add: memory_store_def)
  from missing_app_id_fails_run [OF configured_urls(1,2) ios android mem bid new unknown app]
    ios mem bid new looked app
  show ?thesis by blast
qed

text \<open>
  Claim C6, as stated, fails: both fetches succeed and the filtered sequence holds one
  entity, but the store rejects the batch insert, and the reply is the generic failure
  instead of the count added.
\<close>

theorem rejected_insert_is_generic_failure:
  "fst (fetchAggregatedTopGames (feeds [game_a] []) ''ios'') = Inr [game_a]
   \<and> fst (fetchAggregatedTopGames (feeds [game_a] []) ''android'') = Inr []
   \<and> findAll rejecting_store [] [JStr ''a''] = Inr []
   \<and> newGames [] ([game_a] @ []) = Inr [entity_a]
   \<and> sent (populate configured (feeds [game_a] []) rejecting_store [])
       = \<lparr> http_status = 500, payload = ErrorBody ''Failed to populate database'' \<rparr>
   \<and> store (populate configured (feeds [game_a] []) rejecting_store []) = []"
proof -
  have new0: "newGames [] ([game_a] @ []) = Inr [entity_a]"
    by code_simp
  have rows0: "findAll rejecting_store [] [JStr ''a''] = Inr []"
    by (simp add: rejecting_store_def memory_store_def)
  have ids: "map_err (\<lambda>game. get_prop game ''bundle_id'') ([game_a] @ []) = Inr [JStr ''a'']"
    by (simp add: game_a_def)
  have rej: "bulkCreate rejecting_store [] [entity_a] = Inl PersistenceError"
    by (simp add: rejecting_store_def)
  have "populate configured (feeds [game_a] []) rejecting_store []
          = on_fetched rejecting_store []
              ([NetFetch ''ios'', JsonParse ''ios''] @ [NetFetch ''android'', JsonParse ''android''])
              [game_a] []"
    by (rule populate_fetched) (simp_all add: configured_urls feeds_fetch)
  also have "\<dots> = failed []
       (([NetFetch ''ios'', JsonParse ''ios''] @ [NetFetch ''android'', JsonParse ''android''])
        @ [DbFindAll [JStr ''a''], DbBulkCreate [entity_a]])"
    using on_fetched_filtered [OF ids, of rejecting_store "[]" "[]" "[entity_a]"] rows0 new0 rej
    by simp
  finally show ?thesis
    using new0 rows0 by (simp add: feeds_fetch failed_def)
qed

text \<open>
  Claim C6, amended. In a run where both fetches succeed, the lookup of the existing keys
  succeeds and the Dedup Filter returns a sequence: when the sequence is empty the reply is
  200 with the message \<open>No new games to add.\<close> and nothing is inserted; otherwise the
  run issues exactly one batch insert, of the whole sequence, and replies 201 with the
  length of the sequence when the insert succeeds, and with the generic failure when the
  insert is rejected.
\<close>

theorem populate_after_filter:
  assumes "\<not> unset (JSON_URL_IOS ev)" and "\<not> unset (JSON_URL_ANDROID ev)"
    and "fetchAggregatedTopGames net (url_of (JSON_URL_IOS ev)) = (Inr iosGames, ios_events)"
    and "fetchAggregatedTopGames net (url_of (JSON_URL_ANDROID ev)) = (Inr androidGames, android_events)"
    and "map_err (\<lambda>game. get_prop game ''bundle_id'') (iosGames @ androidGames) = Inr bundle_ids"
    and "findAll db s bundle_ids = Inr existingGames"
    and "newGames (map row_bundleId existingGames) (iosGames @ androidGames) = Inr new_games"
  shows "(new_games = [] \<longrightarrow>
            sent (populate ev net db s) = no_new_games
            \<and> store (populate ev net db s) = s
            \<and> filter is_insert (events (populate ev net db s)) = [])
         \<and> (new_games \<noteq> [] \<longrightarrow>
            filter is_insert (events (populate ev net db s)) = [DbBulkCreate new_games]
            \<and> (\<forall>s'. bulkCreate db s new_games = Inr s' \<longrightarrow>
                  sent (populate ev net db s)
                    = \<lparr> http_status = 201, payload = AddedBody (length new_games) \<rparr>
                  \<and> store (populate ev net db s) = s')
            \<and> (\<forall>e. bulkCreate db s new_games = Inl e \<longrightarrow>
                  sent (populate ev net db s) = generic_failure
                  \<and> store (populate ev net db s) = s))"
proof -
  have quiet: "filter is_insert (ios_events @ android_events) = []"
    using fetch_no_insert [of net "url_of (JSON_URL_IOS ev)"]
      fetch_no_insert [of net "url_of (JSON_URL_ANDROID ev)"] assms(3,4) by simp
  have run: "populate ev net db s
               = on_fetched db s (ios_events @ android_events) iosGames androidGames"
    using assms(1-4) by (rule populate_fetched)
  show ?thesis
    unfolding run on_fetched_filtered [OF assms(5-7)]
    using quiet by (auto simp: failed_def generic_failure_def split: sum.splits)
qed

theorem populate_after_filter_witness:
  "fetchAggregatedTopGames (feeds [game_a] []) (url_of (JSON_URL_IOS configured))
     = (Inr [game_a], [NetFetch ''ios'', JsonParse ''ios''])
   \<and> fetchAggregatedTopGames (feeds [game_a] []) (url_of (JSON_URL_ANDROID configured))
     = (Inr [], [NetFetch ''android'', JsonParse ''android''])
   \<and> map_err (\<lambda>game. get_prop game ''bundle_id'') ([game_a] @ []) = Inr [JStr ''a'']
   \<and> findAll memory_store [] [JStr ''a''] = Inr []
   \<and> newGames (map row_bundleId []) ([game_a] @ []) = Inr [entity_a]
   \<and> bulkCreate memory_store [] [entity_a] = Inr [entity_a]
   \<and> sent (populate configured (feeds [game_a] []) memory_store [])
       = \<lparr> http_status = 201, payload = AddedBody (length [entity_a]) \<rparr>
   \<and> store (populate configured (feeds [game_a] []) memory_store []) = [entity_a]
   \<and> filter is_insert (events (populate configured (feeds [game_a] []) memory_store []))
       = [DbBulkCreate [entity_a]]
   \<and> findAll memory_store [entity_a] [JStr ''a''] = Inr [\<lparr> row_bundleId = JStr ''a'' \<rparr>]
   \<and> newGames (map row_bundleId [\<lparr> row_bundleId = JStr ''a'' \<rparr>]) ([game_a] @ []) = Inr []
   \<and> sent (populate configured (feeds [game_a] []) memory_store [entity_a]) = no_new_games
   \<and> store (populate configured (feeds [game_a] []) memory_store [entity_a]) = [entity_a]
   \<and> filter is_insert (events (populate configured (feeds [game_a] []) memory_store [entity_a]))
       = []"
proof -
  let ?net = "feeds [game_a] []"
  have ios: "fetchAggregatedTopGames ?net (url_of (JSON_URL_IOS configured))
               = (Inr [game_a], [NetFetch ''ios'', JsonParse ''ios''])"
    and android: "fetchAggregatedTopGames ?net (url_of (JSON_URL_ANDROID configured))
               = (Inr [], [NetFetch ''android'', JsonParse ''android''])"
    by (simp_all add: configured_urls feeds_fetch)
  have ids: "map_err (\<lambda>game. get_prop game ''bundle_id'') ([game_a] @ []) = Inr [JStr ''a'']"
    by (simp add: game_a_def)
  have rows0: "findAll memory_store [] [JStr ''a''] = Inr []"
    by (simp add: memory_store_def)
  have new0: "newGames (map row_bundleId []) ([game_a] @ []) = Inr [entity_a]"
    by code_simp
  have ins: "bulkCreate memory_store [] [entity_a] = Inr [entity_a]"
    by (simp add: memory_store_def)
  have rows1: "findAll memory_store [entity_a] [JStr ''a''] = Inr [\<lparr> row_bundleId = JStr ''a'' \<rparr>]"
    by (simp add: memory_store_def entity_a_def)
  have new1: "newGames (map row_bundleId [\<lparr> row_bundleId = JStr ''a'' \<rparr>]) ([game_a] @ []) = Inr []"
    by code_simp
  from populate_after_filter [OF configured_urls(1,2) ios android ids rows0 new0]
    populate_after_filter [OF configured_urls(1,2) ios android ids rows1 new1]
    ios android ids rows0 new0 ins rows1 new1
  show ?thesis by simp
qed

section \<open>Running the handler twice\<close>

lemma rerun_filters_everything:
  assumes prim: "\<forall>g\<in>set topGames. \<forall>b. get_prop g ''bundle_id'' = Inr b \<longrightarrow> primitive b"
    and first: "newGames existing topGames = Inr new_games"
    and grown: "set existing \<union> bundleId ` set new_games \<subseteq> set existing'"
  shows "newGames existing' topGames = Inr []"
proof -
  let ?kept = "filter (\<lambda>g. keep_game existing g = Inr True) topGames"
  from newGames_Inr [OF first]
  have filtered: "filter_err (keep_game existing) topGames = Inr ?kept"
    and mapped: "list_all2 (\<lambda>g e. to_entity g = Inr e) ?kept new_games"
    by simp_all
  have "keep_game existing' g = Inr False" if g: "g \<in> set topGames" for g
  proof -
    from filter_err_defined [OF filtered g] obtain k where k: "keep_game existing g = Inr k"
      by blast
    then obtain b where b: "get_prop g ''bundle_id'' = Inr b"
      by (auto simp: keep_game_def bind_err_def split: sum.splits)
    with prim g have pb: "primitive b" by blast
    have "truthy b \<longrightarrow> set_has existing' b"
    proof
      assume t: "truthy b"
      show "set_has existing' b"
      proof (cases "set_has existing b")
        case True
        with pb grown show ?thesis by (auto simp: set_has_primitive)
      next
        case False
        with b t have "keep_game existing g = Inr True" by (simp add: keep_game_True)
        with g have "g \<in> set ?kept" by simp
        from list_all2_left [OF mapped this] obtain e
          where e: "e \<in> set new_games" "to_entity g = Inr e" by blast
        from to_entity_fields(1) [OF e(2)] b have "bundleId e = b" by simp
        with e(1) grown have "b \<in> set existing'" by auto
        with pb show ?thesis by (simp add: set_has_primitive)
      qed
    qed
    with b show ?thesis by (auto simp: keep_game_def bind_err_def)
  qed
  then have "filter_err (keep_game existing') topGames = Inr []"
    by (simp add: filter_err_none)
  then show ?thesis by (simp add: newGames_def bind_err_def)
qed

lemma memory_store_findAll:
  "findAll memory_store rows bundle_ids
     = Inr (map (\<lambda>e. \<lparr> row_bundleId = bundleId e \<rparr>) (filter (\<lambda>e. bundleId e \<in> set bundle_ids) rows))"
  by (simp add: memory_store_def)

lemma memory_store_bulkCreate: "bulkCreate memory_store rows entities = Inr (rows @ entities)"
  by (simp add: memory_store_def)

lemma new_games_ids:
  assumes ids: "map_err (\<lambda>game. get_prop game ''bundle_id'') topGames = Inr bundle_ids"
    and first: "newGames existing topGames = Inr new_games"
  shows "bundleId ` set new_games \<subseteq> set bundle_ids"
proof
  fix b assume "b \<in> bundleId ` set new_games"
  then obtain e where e: "e \<in> set new_games" "b = bundleId e" by blast
  from newGames_Inr [OF first]
  have all: "list_all2 (\<lambda>g e. to_entity g = Inr e)
          (filter (\<lambda>g. keep_game existing g = Inr True) topGames) new_games"
    by simp
  from list_all2_right [OF all e(1)]
  obtain g where g: "g \<in> set (filter (\<lambda>g. keep_game existing g = Inr True) topGames)"
    "to_entity g = Inr e"
    by blast
  from g(1) have mem: "g \<in> set topGames" by simp
  from to_entity_fields(1) [OF g(2)] have "get_prop g ''bundle_id'' = Inr b"
    unfolding e(2) .
  from map_err_member [OF ids mem, of b] this show "b \<in> set bundle_ids" by simp
qed

lemma on_fetched_twice:
  assumes prim: "\<forall>g\<in>set (iosGames @ androidGames). \<forall>b. get_prop g ''bundle_id'' = Inr b \<longrightarrow> primitive b"
    and quiet: "filter is_insert evs = []"
  shows "let first = on_fetched memory_store s evs iosGames androidGames;
             second = on_fetched memory_store (store first) evs iosGames androidGames
         in store second = store first
            \<and> filter is_insert (events second) = []
            \<and> (http_status (sent first) \<noteq> 500 \<longrightarrow> sent second = no_new_games)
            \<and> (http_status (sent first) = 500 \<longrightarrow> sent second = sent first)"
proof -
  let ?top = "iosGames @ androidGames"
  let ?first = "on_fetched memory_store s evs iosGames androidGames"
  show ?thesis
  proof (cases "map_err (\<lambda>game. get_prop game ''bundle_id'') ?top")
    case (Inl e)
    then show ?thesis by (simp add: on_fetched_def failed_def Let_def quiet)
  next
    case ids: (Inr bundle_ids)
    let ?rows = "map (\<lambda>e. \<lparr> row_bundleId = bundleId e \<rparr>) (filter (\<lambda>e. bundleId e \<in> set bundle_ids) s)"
    let ?existing = "map row_bundleId ?rows"
    have rows: "findAll memory_store s bundle_ids = Inr ?rows"
      by (rule memory_store_findAll)
    show ?thesis
    proof (cases "newGames ?existing ?top")
      case (Inl e)
      with ids rows show ?thesis by (simp add: on_fetched_def failed_def Let_def quiet)
    next
      case new: (Inr new_games)
      note run1 = on_fetched_filtered [OF ids rows new, of evs]
      show ?thesis
      proof (cases "new_games = []")
        case True
        with run1 have same: "?first = \<lparr> sent = no_new_games, store = s, events = evs @ [DbFindAll bundle_ids] \<rparr>"
          by simp
        then show ?thesis by (simp add: Let_def no_new_games_def quiet)
      next
        case False
        with run1 have first: "sent ?first = \<lparr> http_status = 201, payload = AddedBody (length new_games) \<rparr>"
          "store ?first = s @ new_games"
          by (simp_all add: memory_store_bulkCreate)
        let ?rows' = "map (\<lambda>e. \<lparr> row_bundleId = bundleId e \<rparr>)
                        (filter (\<lambda>e. bundleId e \<in> set bundle_ids) (s @ new_games))"
        have rows': "findAll memory_store (s @ new_games) bundle_ids = Inr ?rows'"
          by (rule memory_store_findAll)
        from new_games_ids [OF ids new]
        have "set ?existing \<union> bundleId ` set new_games \<subseteq> set (map row_bundleId ?rows')"
          by (auto simp: image_iff)
        from rerun_filters_everything [OF prim new this]
        have again: "newGames (map row_bundleId ?rows') ?top = Inr []" .
        from on_fetched_filtered [OF ids rows' again, of evs] first
        show ?thesis by (simp add: Let_def quiet)
      qed
    qed
  qed
qed

text \<open>
  Claim C4, as stated, fails, in two ways. When a new record's \<open>bundle_id\<close> is an array,
  here \<open>["a"]\<close>, the first run inserts its entity and so does the second: the set of
  existing keys holds the array read back from the store, and \<open>has\<close> compares an array by
  identity, so the record counts as new again. And when the feed holds a new record
  without \<open>app_id\<close>, the first run fails and the second run fails in the same way: its
  reply is the generic failure, not the no-op message.
\<close>

theorem second_run_inserts_again_or_fails:
  "sent (populate configured (feeds [game_with_array_bundle_id] []) memory_store [])
     = \<lparr> http_status = 201, payload = AddedBody 1 \<rparr>
   \<and> store (populate configured (feeds [game_with_array_bundle_id] []) memory_store [])
       = [entity_with_array_bundle_id]
   \<and> sent (populate configured (feeds [game_with_array_bundle_id] []) memory_store
             (store (populate configured (feeds [game_with_array_bundle_id] []) memory_store [])))
       = \<lparr> http_status = 201, payload = AddedBody 1 \<rparr>
   \<and> store (populate configured (feeds [game_with_array_bundle_id] []) memory_store
             (store (populate configured (feeds [game_with_array_bundle_id] []) memory_store [])))
       = [entity_with_array_bundle_id, entity_with_array_bundle_id]
   \<and> fst (fetchAggregatedTopGames (feeds [game_without_app_id] []) ''ios'') = Inr [game_without_app_id]
   \<and> fst (fetchAggregatedTopGames (feeds [game_without_app_id] []) ''android'') = Inr []
   \<and> store (populate configured (feeds [game_without_app_id] []) memory_store []) = []
   \<and> sent (populate configured (feeds [game_without_app_id] []) memory_store
             (store (populate configured (feeds [game_without_app_id] []) memory_store [])))
       = \<lparr> http_status = 500, payload = ErrorBody ''Failed to populate database'' \<rparr>
   \<and> sent (populate configured (feeds [game_without_app_id] []) memory_store
             (store (populate configured (feeds [game_without_app_id] []) memory_store [])))
       \<noteq> \<lparr> http_status = 200, payload = MessageBody ''No new games to add.'' \<rparr>"
proof -
  let ?evs = "[NetFetch ''ios'', JsonParse ''ios''] @ [NetFetch ''android'', JsonParse ''android'']"
  let ?arr = "feeds [game_with_array_bundle_id] []"
  have arr_run: "populate configured ?arr memory_store t
                   = on_fetched memory_store t ?evs [game_with_array_bundle_id] []" for t
    by (rule populate_fetched) (simp_all add: configured_urls feeds_fetch)
  have arr_ids: "map_err (\<lambda>game. get_prop game ''bundle_id'') ([game_with_array_bundle_id] @ [])
                   = Inr [JArr [JStr ''a'']]"
    by (simp add: game_with_array_bundle_id_def)
  have arr_rows0: "findAll memory_store [] [JArr [JStr ''a'']] = Inr []"
    by (simp add: memory_store_def)
  have arr_new0: "newGames (map row_bundleId []) ([game_with_array_bundle_id] @ [])
                    = Inr [entity_with_array_bundle_id]"
    by code_simp
  have arr_rows1: "findAll memory_store [entity_with_array_bundle_id] [JArr [JStr ''a'']]
                     = Inr [\<lparr> row_bundleId = JArr [JStr ''a''] \<rparr>]"
    by (simp add: memory_store_def entity_with_array_bundle_id_def)
  have arr_new1: "newGames (map row_bundleId [\<lparr> row_bundleId = JArr [JStr ''a''] \<rparr>])
                    ([game_with_array_bundle_id] @ [])
                    = Inr [entity_with_array_bundle_id]"
    by code_simp
  have arr_first: "sent (populate configured ?arr memory_store [])
                     = \<lparr> http_status = 201, payload = AddedBody 1 \<rparr>"
    "store (populate configured ?arr memory_store []) = [entity_with_array_bundle_id]"
    unfolding arr_run on_fetched_filtered [OF arr_ids arr_rows0 arr_new0]
    by (simp_all add: memory_store_bulkCreate)
  have arr_second: "sent (populate configured ?arr memory_store [entity_with_array_bundle_id])
                     = \<lparr> http_status = 201, payload = AddedBody 1 \<rparr>"
    "store (populate configured ?arr memory_store [entity_with_array_bundle_id])
       = [entity_with_array_bundle_id, entity_with_array_bundle_id]"
    unfolding arr_run on_fetched_filtered [OF arr_ids arr_rows1 arr_new1]
    by (simp_all add: memory_store_bulkCreate)
  have ids: "map_err (\<lambda>game. get_prop game ''bundle_id'') ([game_without_app_id] @ [])
               = Inr [JStr ''c'']"
    by (simp add: game_without_app_id_def)
  have rows0: "findAll memory_store [] [JStr ''c''] = Inr []"
    by (simp add: memory_store_def)
  have thrown: "newGames (map row_bundleId []) ([game_without_app_id] @ []) = Inl TypeError"
    by code_simp
  have "populate configured (feeds [game_without_app_id] []) memory_store []
          = on_fetched memory_store [] ?evs [game_without_app_id] []"
    by (rule populate_fetched) (simp_all add: configured_urls feeds_fetch)
  also have "\<dots> = failed [] (?evs @ [DbFindAll [JStr ''c'']])"
    using ids rows0 thrown by (simp add: on_fetched_def)
  finally have run: "populate configured (feeds [game_without_app_id] []) memory_store []
      = failed [] (?evs @ [DbFindAll [JStr ''c'']])" .
  then have failing: "store (populate configured (feeds [game_without_app_id] []) memory_store []) = []"
    "sent (populate configured (feeds [game_without_app_id] []) memory_store [])
       = \<lparr> http_status = 500, payload = ErrorBody ''Failed to populate database'' \<rparr>"
    by (simp_all add: failed_def)
  show ?thesis
    by (simp add: arr_first arr_second failing feeds_fetch)
qed

text \<open>
  Claim C4, amended. Over the store modelled from the spec, and for feeds whose records
  have primitive \<open>bundle_id\<close> values (strings, in the data model): the second of two
  runs against the same feeds leaves the store as the first run left it and issues no
  insert; its reply is the no-op message when the first run did not fail, and the first
  run's failure reply otherwise.
\<close>

theorem second_run_adds_nothing:
  assumes "\<forall>url games g b. fst (fetchAggregatedTopGames net url) = Inr games \<longrightarrow> g \<in> set games
             \<longrightarrow> get_prop g ''bundle_id'' = Inr b \<longrightarrow> primitive b"
  shows "let first = populate ev net memory_store s;
             second = populate ev net memory_store (store first)
         in store second = store first
            \<and> filter is_insert (events second) = []
            \<and> (http_status (sent first) \<noteq> 500 \<longrightarrow> sent second = no_new_games)
            \<and> (http_status (sent first) = 500 \<longrightarrow> sent second = sent first)"
proof (cases "unset (JSON_URL_IOS ev) \<or> unset (JSON_URL_ANDROID ev)")
  case True
  then show ?thesis by (simp add: populate_unset Let_def)
next
  case False
  then have urls: "\<not> unset (JSON_URL_IOS ev)" "\<not> unset (JSON_URL_ANDROID ev)" by simp_all
  let ?ios = "fetchAggregatedTopGames net (url_of (JSON_URL_IOS ev))"
  let ?android = "fetchAggregatedTopGames net (url_of (JSON_URL_ANDROID ev))"
  have quiet: "filter is_insert (snd ?ios @ snd ?android) = []"
    by (simp add: fetch_no_insert)
  show ?thesis
  proof (cases "\<exists>e. fst ?ios = Inl e \<or> fst ?android = Inl e")
    case True
    then obtain e where "fst ?ios = Inl e \<or> fst ?android = Inl e" by blast
    then have rejected: "populate ev net memory_store t = failed t (snd ?ios @ snd ?android)" for t
      using urls by (intro populate_rejected)
    from quiet show ?thesis by (simp add: rejected failed_def Let_def)
  next
    case False
    then obtain iosGames androidGames
      where got: "fst ?ios = Inr iosGames" "fst ?android = Inr androidGames"
      by (cases "fst ?ios"; cases "fst ?android") auto
    then have both: "?ios = (Inr iosGames, snd ?ios)" "?android = (Inr androidGames, snd ?android)"
      by (simp_all add: prod_eq_iff)
    have prim: "\<forall>g\<in>set (iosGames @ androidGames). \<forall>b.
                  get_prop g ''bundle_id'' = Inr b \<longrightarrow> primitive b"
    proof (intro ballI allI impI)
      fix g b
      assume g: "g \<in> set (iosGames @ androidGames)" and b: "get_prop g ''bundle_id'' = Inr b"
      from g have "g \<in> set iosGames \<or> g \<in> set androidGames" by simp
      then show "primitive b"
      proof
        assume "g \<in> set iosGames"
        with assms got(1) b show ?thesis by blast
      next
        assume "g \<in> set androidGames"
        with assms got(2) b show ?thesis by blast
      qed
    qed
    have run: "populate ev net memory_store t
                 = on_fetched memory_store t (snd ?ios @ snd ?android) iosGames androidGames" for t
      using urls both by (rule populate_fetched)
    from on_fetched_twice [OF prim quiet, of s] show ?thesis
      unfolding run .
  qed
qed

theorem second_run_adds_nothing_witness:
  "sent (populate configured (feeds [game_a] [game_b]) memory_store [])
     = \<lparr> http_status = 201, payload = AddedBody 2 \<rparr>
   \<and> store (populate configured (feeds [game_a] [game_b]) memory_store []) = [entity_a, entity_b]
   \<and> sent (populate configured (feeds [game_a] [game_b]) memory_store [entity_a, entity_b])
       = no_new_games
   \<and> store (populate configured (feeds [game_a] [game_b]) memory_store [entity_a, entity_b])
       = [entity_a, entity_b]
   \<and> filter is_insert
        (events (populate configured (feeds [game_a] [game_b]) memory_store [entity_a, entity_b]))
       = []"
proof -
  let ?net = "feeds [game_a] [game_b]"
  have strings: "\<forall>url games g b.
      fst (fetchAggregatedTopGames ?net url) = Inr games \<longrightarrow> g \<in> set games
        \<longrightarrow> get_prop g ''bundle_id'' = Inr b \<longrightarrow> primitive b"
  proof (intro allI impI)
    fix url games g b
    assume "fst (fetchAggregatedTopGames ?net url) = Inr games" and g: "g \<in> set games"
      and b: "get_prop g ''bundle_id'' = Inr b"
    then have "games = [game_a] \<or> games = [game_b]" by (intro feeds_other)
    with g b show "primitive b" by (auto simp: game_a_def game_b_def)
  qed
  have ids: "map_err (\<lambda>game. get_prop game ''bundle_id'') ([game_a] @ [game_b])
               = Inr [JStr ''a'', JStr ''b'']"
    by (simp add: game_a_def game_b_def)
  have rows0: "findAll memory_store [] [JStr ''a'', JStr ''b''] = Inr []"
    by (simp add: memory_store_def)
  have new0: "newGames (map row_bundleId []) ([game_a] @ [game_b]) = Inr [entity_a, entity_b]"
    by code_simp
  have "populate configured ?net memory_store []
          = on_fetched memory_store []
              ([NetFetch ''ios'', JsonParse ''ios''] @ [NetFetch ''android'', JsonParse ''android''])
              [game_a] [game_b]"
    by (rule populate_fetched) (simp_all add: configured_urls feeds_fetch)
  with on_fetched_filtered [OF ids rows0 new0]
  have first: "sent (populate configured ?net memory_store [])
                 = \<lparr> http_status = 201, payload = AddedBody 2 \<rparr>"
    "store (populate configured ?net memory_store []) = [entity_a, entity_b]"
    by (simp_all add: memory_store_bulkCreate)
  from second_run_adds_nothing [OF strings, of configured "[]"] first
  show ?thesis by (simp add: Let_def)
qed

end
